theory Spec2Isabelle
  imports Complex_Main "HOL-Library.AList"
begin

section \<open>JavaScript numbers\<close>

text \<open>
  The program computes with JavaScript numbers.  Finite values are modelled as reals
  (rounding is not modelled); the three special values a division by zero or an empty
  array can produce are kept apart, because the code tests for them (\<open>isNaN\<close>, \<open>||\<close>).
  Where a function can only ever see finite numbers its model uses \<open>real\<close> directly.
\<close>

datatype jsnum = Num real | PosInf | NegInf | NaN

text \<open>
  Arithmetic on these values as IEEE 754 defines it, with one simplification: a zero is
  the positive zero (the divisors that can be zero here are a length, an absolute value
  or a difference \<open>x - x\<close>).
\<close>

fun jneg :: "jsnum \<Rightarrow> jsnum" where
  "jneg (Num a) = Num (- a)"
| "jneg PosInf = NegInf"
| "jneg NegInf = PosInf"
| "jneg NaN = NaN"

fun jadd :: "jsnum \<Rightarrow> jsnum \<Rightarrow> jsnum" where
  "jadd (Num a) (Num b) = Num (a + b)"
| "jadd NaN _ = NaN"
| "jadd _ NaN = NaN"
| "jadd PosInf NegInf = NaN"
| "jadd NegInf PosInf = NaN"
| "jadd PosInf _ = PosInf"
| "jadd _ PosInf = PosInf"
| "jadd NegInf _ = NegInf"
| "jadd _ NegInf = NegInf"

definition jsub :: "jsnum \<Rightarrow> jsnum \<Rightarrow> jsnum" where
  "jsub a b = jadd a (jneg b)"

text \<open>The sign of a product or quotient with an infinite operand.\<close>

definition signed_inf :: "bool \<Rightarrow> jsnum" where
  "signed_inf positive = (if positive then PosInf else NegInf)"

fun jmul :: "jsnum \<Rightarrow> jsnum \<Rightarrow> jsnum" where
  "jmul (Num a) (Num b) = Num (a * b)"
| "jmul NaN _ = NaN"
| "jmul _ NaN = NaN"
| "jmul PosInf (Num b) = (if b = 0 then NaN else signed_inf (b > 0))"
| "jmul NegInf (Num b) = (if b = 0 then NaN else signed_inf (b < 0))"
| "jmul (Num a) PosInf = (if a = 0 then NaN else signed_inf (a > 0))"
| "jmul (Num a) NegInf = (if a = 0 then NaN else signed_inf (a < 0))"
| "jmul PosInf PosInf = PosInf"
| "jmul NegInf NegInf = PosInf"
| "jmul PosInf NegInf = NegInf"
| "jmul NegInf PosInf = NegInf"

fun jdiv :: "jsnum \<Rightarrow> jsnum \<Rightarrow> jsnum" where
  "jdiv (Num a) (Num b) =
     (if b \<noteq> 0 then Num (a / b)
      else if a > 0 then PosInf
      else if a < 0 then NegInf
      else NaN)"
| "jdiv NaN _ = NaN"
| "jdiv _ NaN = NaN"
| "jdiv PosInf (Num b) = signed_inf (b \<ge> 0)"
| "jdiv NegInf (Num b) = signed_inf (b < 0)"
| "jdiv (Num a) PosInf = Num 0"
| "jdiv (Num a) NegInf = Num 0"
| "jdiv PosInf PosInf = NaN"
| "jdiv PosInf NegInf = NaN"
| "jdiv NegInf PosInf = NaN"
| "jdiv NegInf NegInf = NaN"

text \<open>\<open>a < b\<close>; any comparison with \<open>NaN\<close> is false.\<close>

fun jlt :: "jsnum \<Rightarrow> jsnum \<Rightarrow> bool" where
  "jlt (Num a) (Num b) = (a < b)"
| "jlt NaN _ = False"
| "jlt _ NaN = False"
| "jlt NegInf NegInf = False"
| "jlt NegInf _ = True"
| "jlt _ NegInf = False"
| "jlt PosInf _ = False"
| "jlt _ PosInf = True"

definition jgt :: "jsnum \<Rightarrow> jsnum \<Rightarrow> bool" where
  "jgt a b = jlt b a"

definition jle :: "jsnum \<Rightarrow> jsnum \<Rightarrow> bool" where
  "jle a b = (a \<noteq> NaN \<and> b \<noteq> NaN \<and> \<not> jlt b a)"

definition jge :: "jsnum \<Rightarrow> jsnum \<Rightarrow> bool" where
  "jge a b = jle b a"

text \<open>\<open>Math.min(a, b)\<close>.\<close>

definition jmin :: "jsnum \<Rightarrow> jsnum \<Rightarrow> jsnum" where
  "jmin a b = (if a = NaN \<or> b = NaN then NaN else if jlt b a then b else a)"

text \<open>Truthiness of a number: \<open>0\<close> and \<open>NaN\<close> are falsy.\<close>

fun js_truthy :: "jsnum \<Rightarrow> bool" where
  "js_truthy (Num a) = (a \<noteq> 0)"
| "js_truthy NaN = False"
| "js_truthy _ = True"

text \<open>\<open>xs.reduce((a, b) => a + b, 0)\<close>.\<close>

definition jsum :: "jsnum list \<Rightarrow> jsnum" where
  "jsum xs = foldl jadd (Num 0) xs"

text \<open>
  \<open>String.prototype.toLowerCase\<close> on the ASCII letters.  The only use is the comparison
  \<open>side.toLowerCase() === 'buy'\<close>; no character outside ASCII lower-cases to b, u or y.
\<close>

definition lower_char :: "char \<Rightarrow> char" where
  "lower_char c =
     (case map_of (zip ''ABCDEFGHIJKLMNOPQRSTUVWXYZ'' ''abcdefghijklmnopqrstuvwxyz'') c of
        Some d \<Rightarrow> d
      | None \<Rightarrow> c)"

definition toLowerCase :: "string \<Rightarrow> string" where
  "toLowerCase s = map lower_char s"

text \<open>Truthiness of an optional number (\<open>undefined\<close> and \<open>0\<close> are falsy) and string.\<close>

definition falsy_num :: "real option \<Rightarrow> bool" where
  "falsy_num x = (case x of None \<Rightarrow> True | Some v \<Rightarrow> v = 0)"

definition falsy_str :: "string option \<Rightarrow> bool" where
  "falsy_str x = (case x of None \<Rightarrow> True | Some s \<Rightarrow> s = [])"


section \<open>Risk manager (utils/risk-manager.js)\<close>

record risk_config =
  maxPositionSize :: real
  maxDailyLoss :: real
  maxDrawdown :: real
  maxOpenPositions :: real
  minRiskRewardRatio :: real
  maxLeverage :: real
  stopLossPercentage :: real
  takeProfitPercentage :: real
  cooldownPeriod :: real

text \<open>The object handed to the constructor: any key may be missing.\<close>

record config_input =
  in_maxPositionSize :: "real option"
  in_maxDailyLoss :: "real option"
  in_maxDrawdown :: "real option"
  in_maxOpenPositions :: "real option"
  in_minRiskRewardRatio :: "real option"
  in_maxLeverage :: "real option"
  in_stopLossPercentage :: "real option"
  in_takeProfitPercentage :: "real option"
  in_cooldownPeriod :: "real option"

definition no_config :: config_input where
  "no_config = \<lparr> in_maxPositionSize = None, in_maxDailyLoss = None, in_maxDrawdown = None,
     in_maxOpenPositions = None, in_minRiskRewardRatio = None, in_maxLeverage = None,
     in_stopLossPercentage = None, in_takeProfitPercentage = None, in_cooldownPeriod = None \<rparr>"

record daily_stats =
  totalPnL :: real
  tradesCount :: nat
  winningTrades :: nat
  losingTrades :: nat
  lastResetDate :: string

text \<open>A position as \<open>registerPosition\<close> stores it.\<close>

record rm_position =
  rp_id :: string
  rp_symbol :: string
  rp_side :: string
  rp_amount :: real
  rp_entryPrice :: real
  rp_stopLoss :: "real option"
  rp_takeProfit :: "real option"
  rp_openTime :: real
  rp_unrealizedPnL :: real

text \<open>
  The two \<open>Map\<close>s are association lists with distinct keys in insertion order;
  \<open>Map.set\<close> is \<^const>\<open>AList.update\<close>, \<open>Map.delete\<close> is \<^const>\<open>AList.delete\<close>,
  \<open>Map.get\<close> is \<^const>\<open>map_of\<close> and \<open>Map.size\<close> is \<^const>\<open>length\<close>.
\<close>

record risk_manager =
  config :: risk_config
  dailyStats :: daily_stats
  openPositions :: "(string \<times> rm_position) list"
  lastTradeTime :: "(string \<times> real) list"
  portfolioValue :: real
  initialPortfolioValue :: real
  peakPortfolioValue :: real

text \<open>
  The wall clock is an input: \<open>now\<close> is \<open>Date.now()\<close> in milliseconds and
  \<open>today\<close> is \<open>new Date().toDateString()\<close>.
\<close>

record clock =
  now :: real
  today :: string

text \<open>
  The constructor.  Each default \<open>config.k || d\<close> is followed by the spread
  \<open>...config\<close>, so a key that is present in the argument wins whatever its value
  (also \<open>0\<close>) and the default applies only to a missing key.
\<close>

definition new_RiskManager :: "clock \<Rightarrow> config_input \<Rightarrow> risk_manager" where
  "new_RiskManager clk c =
     \<lparr> config = \<lparr>
         maxPositionSize = (case in_maxPositionSize c of Some v \<Rightarrow> v | None \<Rightarrow> 0.1),
         maxDailyLoss = (case in_maxDailyLoss c of Some v \<Rightarrow> v | None \<Rightarrow> 0.02),
         maxDrawdown = (case in_maxDrawdown c of Some v \<Rightarrow> v | None \<Rightarrow> 0.05),
         maxOpenPositions = (case in_maxOpenPositions c of Some v \<Rightarrow> v | None \<Rightarrow> 5),
         minRiskRewardRatio = (case in_minRiskRewardRatio c of Some v \<Rightarrow> v | None \<Rightarrow> 1.5),
         maxLeverage = (case in_maxLeverage c of Some v \<Rightarrow> v | None \<Rightarrow> 3),
         stopLossPercentage = (case in_stopLossPercentage c of Some v \<Rightarrow> v | None \<Rightarrow> 0.02),
         takeProfitPercentage = (case in_takeProfitPercentage c of Some v \<Rightarrow> v | None \<Rightarrow> 0.04),
         cooldownPeriod = (case in_cooldownPeriod c of Some v \<Rightarrow> v | None \<Rightarrow> 300000) \<rparr>,
       dailyStats = \<lparr> totalPnL = 0, tradesCount = 0, winningTrades = 0, losingTrades = 0,
         lastResetDate = today clk \<rparr>,
       openPositions = [],
       lastTradeTime = [],
       portfolioValue = 0,
       initialPortfolioValue = 0,
       peakPortfolioValue = 0 \<rparr>"

text \<open>
  The trade parameters.  A missing field is \<open>None\<close>; \<open>symbol\<close> and \<open>side\<close> are
  strings and the others numbers when they are present.
\<close>

record trade_params =
  symbol :: "string option"
  side :: "string option"
  amount :: "real option"
  price :: "real option"
  leverage :: "real option"
  stopLoss :: "real option"
  takeProfit :: "real option"

datatype error_type = ValidationError | TradingError

text \<open>
  The message of each error, with the value the template string interpolates
  (before \<open>toFixed\<close> rounds it for display).
\<close>

datatype reject_reason =
    MissingRequiredParameters
  | SymbolInCooldown string
  | MaxOpenPositionsReached real
  | DailyLossLimitExceeded
  | MaxDrawdownExceeded real
  | PositionSizeExceeded real
  | LeverageExceeded real
  | RiskRewardTooLow real

text \<open>
  The object \<open>validateTrade\<close> returns: \<open>{isValid: true, suggestedSize, riskRewardRatio,
  currentDrawdown}\<close> or \<open>{isValid: false, error, errorType}\<close>.
\<close>

datatype validation_result =
    Accepted jsnum real real
  | Rejected error_type reject_reason

fun isValid :: "validation_result \<Rightarrow> bool" where
  "isValid (Accepted _ _ _) = True"
| "isValid (Rejected _ _) = False"

definition resetDailyStatsIfNewDay :: "clock \<Rightarrow> risk_manager \<Rightarrow> risk_manager" where
  "resetDailyStatsIfNewDay clk rm =
     (if lastResetDate (dailyStats rm) \<noteq> today clk
      then rm\<lparr> dailyStats := \<lparr> totalPnL = 0, tradesCount = 0, winningTrades = 0,
                                losingTrades = 0, lastResetDate = today clk \<rparr> \<rparr>
      else rm)"

definition isSymbolInCooldown :: "clock \<Rightarrow> risk_manager \<Rightarrow> string \<Rightarrow> bool" where
  "isSymbolInCooldown clk rm smb =
     (case map_of (lastTradeTime rm) smb of
        None \<Rightarrow> False
      | Some t \<Rightarrow> if t = 0 then False else now clk - t < cooldownPeriod (config rm))"

definition calculateDrawdown :: "risk_manager \<Rightarrow> real" where
  "calculateDrawdown rm =
     (if peakPortfolioValue rm = 0 then 0
      else (peakPortfolioValue rm - portfolioValue rm) / peakPortfolioValue rm)"

definition calculateRiskRewardRatio ::
    "real option \<Rightarrow> real option \<Rightarrow> real option \<Rightarrow> string \<Rightarrow> real" where
  "calculateRiskRewardRatio entryPrice sl tp sd =
     (if falsy_num sl \<or> falsy_num tp \<or> falsy_num entryPrice then 0
      else
        let isLong = (toLowerCase sd = ''buy'');
            risk = (if isLong then the entryPrice - the sl else the sl - the entryPrice);
            reward = (if isLong then the tp - the entryPrice else the entryPrice - the tp)
        in if risk > 0 then reward / risk else 0)"

definition calculateOptimalPositionSize ::
    "risk_manager \<Rightarrow> real option \<Rightarrow> real option \<Rightarrow> real \<Rightarrow> jsnum" where
  "calculateOptimalPositionSize rm entryPrice sl requestedAmount =
     (if falsy_num sl \<or> falsy_num entryPrice then Num requestedAmount
      else
        let riskPerShare = \<bar>the entryPrice - the sl\<bar>;
            maxRiskAmount = portfolioValue rm * stopLossPercentage (config rm);
            optimalSize = jdiv (Num maxRiskAmount) (Num riskPerShare)
        in jmin optimalSize (Num requestedAmount))"

text \<open>
  \<open>validateTrade\<close>.  Every \<open>throw\<close> inside the \<open>try\<close> is caught by the function's own
  \<open>catch\<close> and turned into the rejection object, so the model returns the rejection
  where the source throws.  The daily statistics are rolled over first, whatever the
  outcome, so the manager is returned with the result.
\<close>

definition validateTrade ::
    "clock \<Rightarrow> risk_manager \<Rightarrow> trade_params \<Rightarrow> risk_manager \<times> validation_result" where
  "validateTrade clk rm0 p =
     (let rm = resetDailyStatsIfNewDay clk rm0 in
      (rm,
       if falsy_str (symbol p) \<or> falsy_str (side p) \<or> falsy_num (amount p) \<or> falsy_num (price p)
       then Rejected ValidationError MissingRequiredParameters
       else if isSymbolInCooldown clk rm (the (symbol p))
       then Rejected TradingError (SymbolInCooldown (the (symbol p)))
       else if real (length (openPositions rm)) \<ge> maxOpenPositions (config rm)
       then Rejected TradingError (MaxOpenPositionsReached (maxOpenPositions (config rm)))
       else if totalPnL (dailyStats rm) \<le> - maxDailyLoss (config rm) * portfolioValue rm
       then Rejected TradingError DailyLossLimitExceeded
       else
         let currentDrawdown = calculateDrawdown rm in
         if currentDrawdown \<ge> maxDrawdown (config rm)
         then Rejected TradingError (MaxDrawdownExceeded (currentDrawdown * 100))
         else
           let positionValue = the (amount p) * the (price p);
               maxPositionValue = portfolioValue rm * maxPositionSize (config rm) in
           if positionValue > maxPositionValue
           then Rejected TradingError (PositionSizeExceeded (maxPositionSize (config rm) * 100))
           else if (case leverage p of None \<Rightarrow> 1 | Some l \<Rightarrow> l) > maxLeverage (config rm)
           then Rejected TradingError (LeverageExceeded (maxLeverage (config rm)))
           else
             let riskRewardRatio =
                   calculateRiskRewardRatio (price p) (stopLoss p) (takeProfit p) (the (side p)) in
             if riskRewardRatio < minRiskRewardRatio (config rm)
             then Rejected TradingError (RiskRewardTooLow riskRewardRatio)
             else Accepted
                    (calculateOptimalPositionSize rm (price p) (stopLoss p) (the (amount p)))
                    riskRewardRatio currentDrawdown))"

definition registerPosition :: "clock \<Rightarrow> risk_manager \<Rightarrow> rm_position \<Rightarrow> risk_manager" where
  "registerPosition clk rm pos =
     rm\<lparr> openPositions :=
           AList.update (rp_id pos) (pos\<lparr> rp_openTime := now clk, rp_unrealizedPnL := 0 \<rparr>)
             (openPositions rm) \<rparr>"

definition closePosition :: "clock \<Rightarrow> risk_manager \<Rightarrow> string \<Rightarrow> real \<Rightarrow> risk_manager" where
  "closePosition clk rm positionId realizedPnL =
     (case map_of (openPositions rm) positionId of
        None \<Rightarrow> rm
      | Some pos \<Rightarrow>
          let ds = dailyStats rm;
              ds' = ds\<lparr> totalPnL := totalPnL ds + realizedPnL,
                        tradesCount := tradesCount ds + 1,
                        winningTrades := (if realizedPnL > 0 then winningTrades ds + 1
                                          else winningTrades ds),
                        losingTrades := (if realizedPnL > 0 then losingTrades ds
                                         else losingTrades ds + 1) \<rparr>;
              pv = portfolioValue rm + realizedPnL
          in rm\<lparr> dailyStats := ds',
                 lastTradeTime := AList.update (rp_symbol pos) (now clk) (lastTradeTime rm),
                 openPositions := AList.delete positionId (openPositions rm),
                 portfolioValue := pv,
                 peakPortfolioValue := max (peakPortfolioValue rm) pv \<rparr>)"

definition updatePortfolioValue :: "risk_manager \<Rightarrow> real \<Rightarrow> risk_manager" where
  "updatePortfolioValue rm v =
     rm\<lparr> initialPortfolioValue :=
            (if initialPortfolioValue rm = 0 then v else initialPortfolioValue rm),
         portfolioValue := v,
         peakPortfolioValue := max (peakPortfolioValue rm) v \<rparr>"


text \<open>
  The checks in the words of the specification: the list of rules in their order, each
  with the rejection it produces, applied after the daily rollover; the answer is the
  rejection of the first violated rule, and an acceptance if there is none.
\<close>

definition validation_checks ::
    "clock \<Rightarrow> risk_manager \<Rightarrow> trade_params \<Rightarrow> (bool \<times> validation_result) list" where
  "validation_checks clk rm p =
     [ (falsy_str (symbol p) \<or> falsy_str (side p) \<or> falsy_num (amount p) \<or> falsy_num (price p),
        Rejected ValidationError MissingRequiredParameters),
       (isSymbolInCooldown clk rm (the (symbol p)),
        Rejected TradingError (SymbolInCooldown (the (symbol p)))),
       (real (length (openPositions rm)) \<ge> maxOpenPositions (config rm),
        Rejected TradingError (MaxOpenPositionsReached (maxOpenPositions (config rm)))),
       (totalPnL (dailyStats rm) \<le> - maxDailyLoss (config rm) * portfolioValue rm,
        Rejected TradingError DailyLossLimitExceeded),
       (calculateDrawdown rm \<ge> maxDrawdown (config rm),
        Rejected TradingError (MaxDrawdownExceeded (calculateDrawdown rm * 100))),
       (the (amount p) * the (price p) > portfolioValue rm * maxPositionSize (config rm),
        Rejected TradingError (PositionSizeExceeded (maxPositionSize (config rm) * 100))),
       ((case leverage p of None \<Rightarrow> 1 | Some l \<Rightarrow> l) > maxLeverage (config rm),
        Rejected TradingError (LeverageExceeded (maxLeverage (config rm)))),
       (calculateRiskRewardRatio (price p) (stopLoss p) (takeProfit p) (the (side p))
          < minRiskRewardRatio (config rm),
        Rejected TradingError
          (RiskRewardTooLow
             (calculateRiskRewardRatio (price p) (stopLoss p) (takeProfit p) (the (side p))))) ]"

definition validateTrade_spec ::
    "clock \<Rightarrow> risk_manager \<Rightarrow> trade_params \<Rightarrow> risk_manager \<times> validation_result" where
  "validateTrade_spec clk rm0 p =
     (let rm = resetDailyStatsIfNewDay clk rm0
      in (rm,
          case find fst (validation_checks clk rm p) of
            Some violated \<Rightarrow> snd violated
          | None \<Rightarrow>
              Accepted (calculateOptimalPositionSize rm (price p) (stopLoss p) (the (amount p)))
                (calculateRiskRewardRatio (price p) (stopLoss p) (takeProfit p) (the (side p)))
                (calculateDrawdown rm)))"


section \<open>Signal scorer (signals.js)\<close>

text \<open>The constants of \<open>SIGNAL_CONFIG\<close>.\<close>

definition TIMEFRAMES :: "string list" where
  "TIMEFRAMES = [''15m'', ''1h'', ''4h'', ''1d'']"

definition W_ML_PREDICTION :: real where "W_ML_PREDICTION = 0.35"
definition W_RSI :: real where "W_RSI = 0.15"
definition W_MACD :: real where "W_MACD = 0.12"
definition W_MOVING_AVERAGES :: real where "W_MOVING_AVERAGES = 0.10"
definition W_BOLLINGER_BANDS :: real where "W_BOLLINGER_BANDS = 0.10"
definition W_STOCHASTIC :: real where "W_STOCHASTIC = 0.08"
definition W_VOLUME :: real where "W_VOLUME = 0.05"
definition W_SUPPORT_RESISTANCE :: real where "W_SUPPORT_RESISTANCE = 0.05"

definition MIN_SIGNAL_STRENGTH :: real where "MIN_SIGNAL_STRENGTH = 65"
definition STRONG_SIGNAL_THRESHOLD :: real where "STRONG_SIGNAL_THRESHOLD = 75"
definition CONSENSUS_THRESHOLD :: nat where "CONSENSUS_THRESHOLD = 2"
definition RSI_OVERSOLD :: real where "RSI_OVERSOLD = 30"
definition RSI_OVERBOUGHT :: real where "RSI_OVERBOUGHT = 70"
definition STOCH_OVERSOLD :: real where "STOCH_OVERSOLD = 20"
definition STOCH_OVERBOUGHT :: real where "STOCH_OVERBOUGHT = 80"
definition VOLUME_SURGE :: real where "VOLUME_SURGE = 1.5"

datatype direction = BUY | SELL | HOLD

text \<open>
  The reason strings, with the number each template interpolates (the ML reasons print
  \<open>'N/A'\<close> when \<open>priceChangePercent\<close> is missing).
\<close>

datatype reason =
    AiPredictsIncrease "real option"
  | AiPredictsDecrease "real option"
  | RsiOversold real
  | RsiOverbought real
  | MacdBullishCrossover
  | MacdBearishCrossover
  | PriceAboveMovingAverages
  | PriceBelowMovingAverages
  | PriceBelowBollingerLower
  | PriceAboveBollingerUpper
  | StochasticOversold
  | StochasticOverbought
  | VolumeSurgeReason real
  | NearSupportLevel
  | NearResistanceLevel

record prediction =
  pr_direction :: string
  pr_confidence :: real
  pr_priceChangePercent :: "real option"

record sentiment_data =
  sentiment :: string

record macd_values =
  mv_macd :: real
  mv_signal :: real
  mv_histogram :: real

record bollinger_values =
  bb_upper :: real
  bb_lower :: real

record stochastic_values =
  st_k :: real
  st_d :: real

record support_resistance =
  sr_support :: real
  sr_resistance :: real

text \<open>The fields of the indicator object that the scorer reads.\<close>

record indicators =
  rsi :: real
  macd :: macd_values
  sma20 :: real
  sma50 :: real
  bollingerBands :: bollinger_values
  stochastic :: stochastic_values
  volumeRatio :: real
  supportResistance :: support_resistance

text \<open>
  \<open>signalComponents\<close>, the object the eight analyses mutate in turn (its \<open>strength\<close>
  field is initialised to 50 and never read; \<open>scores\<close> is kept apart below).
\<close>

record components =
  c_direction :: direction
  c_confidence :: real
  c_indicators :: "string list"
  c_reasons :: "reason list"

definition initial_components :: components where
  "initial_components =
     \<lparr> c_direction = HOLD, c_confidence = 0, c_indicators = [], c_reasons = [] \<rparr>"

definition push_tag :: "string \<Rightarrow> reason \<Rightarrow> components \<Rightarrow> components" where
  "push_tag tag r c = c\<lparr> c_indicators := c_indicators c @ [tag], c_reasons := c_reasons c @ [r] \<rparr>"

text \<open>Each analysis returns its score and the mutated components.\<close>

definition analyzeMlPrediction :: "prediction \<Rightarrow> components \<Rightarrow> real \<times> components" where
  "analyzeMlPrediction pr c =
     (if pr_confidence pr > 60 then
        let score = (pr_confidence pr / 100) * W_ML_PREDICTION * 100;
            c1 = (if pr_direction pr = ''BULLISH''
                  then push_tag ''ML_BULLISH'' (AiPredictsIncrease (pr_priceChangePercent pr))
                         (c\<lparr> c_direction := BUY \<rparr>)
                  else if pr_direction pr = ''BEARISH''
                  then push_tag ''ML_BEARISH'' (AiPredictsDecrease (pr_priceChangePercent pr))
                         (c\<lparr> c_direction := SELL \<rparr>)
                  else c)
        in (score, c1\<lparr> c_confidence := max (c_confidence c1) (pr_confidence pr) \<rparr>)
      else (0, c))"

definition analyzeRSI :: "real \<Rightarrow> components \<Rightarrow> real \<times> components" where
  "analyzeRSI r c =
     (if r < RSI_OVERSOLD then
        (W_RSI * 100,
         push_tag ''RSI_OVERSOLD'' (RsiOversold r)
           (c\<lparr> c_direction := (if c_direction c = HOLD then BUY else c_direction c) \<rparr>))
      else if r > RSI_OVERBOUGHT then
        (W_RSI * 100,
         push_tag ''RSI_OVERBOUGHT'' (RsiOverbought r)
           (c\<lparr> c_direction := (if c_direction c = HOLD then SELL else c_direction c) \<rparr>))
      else (0, c))"

definition analyzeMacd :: "macd_values \<Rightarrow> components \<Rightarrow> real \<times> components" where
  "analyzeMacd m c =
     (if mv_histogram m > 0 \<and> mv_macd m > mv_signal m then
        (if c_direction c = BUY
         then (W_MACD * 100, push_tag ''MACD_BULLISH'' MacdBullishCrossover c)
         else (0, c))
      else if mv_histogram m < 0 \<and> mv_macd m < mv_signal m then
        (if c_direction c = SELL
         then (W_MACD * 100, push_tag ''MACD_BEARISH'' MacdBearishCrossover c)
         else (0, c))
      else (0, c))"

definition analyzeMovingAverages :: "indicators \<Rightarrow> real \<Rightarrow> components \<Rightarrow> real \<times> components" where
  "analyzeMovingAverages ind currentPrice c =
     (if currentPrice > sma20 ind \<and> sma20 ind > sma50 ind then
        (if c_direction c = BUY
         then (W_MOVING_AVERAGES * 100, push_tag ''MA_BULLISH'' PriceAboveMovingAverages c)
         else (0, c))
      else if currentPrice < sma20 ind \<and> sma20 ind < sma50 ind then
        (if c_direction c = SELL
         then (W_MOVING_AVERAGES * 100, push_tag ''MA_BEARISH'' PriceBelowMovingAverages c)
         else (0, c))
      else (0, c))"

definition analyzeBollingerBands :: "bollinger_values \<Rightarrow> real \<Rightarrow> components \<Rightarrow> real \<times> components" where
  "analyzeBollingerBands bb currentPrice c =
     (if currentPrice < bb_lower bb then
        (if c_direction c = BUY
         then (W_BOLLINGER_BANDS * 100, push_tag ''BB_OVERSOLD'' PriceBelowBollingerLower c)
         else (0, c))
      else if currentPrice > bb_upper bb then
        (if c_direction c = SELL
         then (W_BOLLINGER_BANDS * 100, push_tag ''BB_OVERBOUGHT'' PriceAboveBollingerUpper c)
         else (0, c))
      else (0, c))"

definition analyzeStochastic :: "stochastic_values \<Rightarrow> components \<Rightarrow> real \<times> components" where
  "analyzeStochastic st c =
     (if st_k st < STOCH_OVERSOLD \<and> st_d st < STOCH_OVERSOLD then
        (if c_direction c = BUY
         then (W_STOCHASTIC * 100, push_tag ''STOCH_OVERSOLD'' StochasticOversold c)
         else (0, c))
      else if st_k st > STOCH_OVERBOUGHT \<and> st_d st > STOCH_OVERBOUGHT then
        (if c_direction c = SELL
         then (W_STOCHASTIC * 100, push_tag ''STOCH_OVERBOUGHT'' StochasticOverbought c)
         else (0, c))
      else (0, c))"

definition analyzeVolume :: "real \<Rightarrow> components \<Rightarrow> real \<times> components" where
  "analyzeVolume vr c =
     (if vr > VOLUME_SURGE
      then (W_VOLUME * 100, push_tag ''VOLUME_SURGE'' (VolumeSurgeReason vr) c)
      else (0, c))"

definition analyzeSupportResistance ::
    "support_resistance \<Rightarrow> real \<Rightarrow> components \<Rightarrow> real \<times> components" where
  "analyzeSupportResistance sr currentPrice c =
     (if currentPrice \<le> sr_support sr * 1.02 then
        (if c_direction c = BUY
         then (W_SUPPORT_RESISTANCE * 100, push_tag ''SUPPORT_LEVEL'' NearSupportLevel c)
         else (0, c))
      else if currentPrice \<ge> sr_resistance sr * 0.98 then
        (if c_direction c = SELL
         then (W_SUPPORT_RESISTANCE * 100, push_tag ''RESISTANCE_LEVEL'' NearResistanceLevel c)
         else (0, c))
      else (0, c))"

record scores =
  sc_ml :: real
  sc_rsi :: real
  sc_macd :: real
  sc_ma :: real
  sc_bb :: real
  sc_stoch :: real
  sc_volume :: real
  sc_sr :: real

definition calculateWeightedStrength :: "scores \<Rightarrow> real" where
  "calculateWeightedStrength sc =
     (let totalScore = sum_list [sc_ml sc, sc_rsi sc, sc_macd sc, sc_ma sc, sc_bb sc,
                                 sc_stoch sc, sc_volume sc, sc_sr sc]
      in min 95 (50 + totalScore))"

definition applySentimentConfirmation :: "sentiment_data \<Rightarrow> direction \<Rightarrow> real" where
  "applySentimentConfirmation sd dir =
     (if sentiment sd = ''BULLISH'' \<and> dir = BUY then 5
      else if sentiment sd = ''BEARISH'' \<and> dir = SELL then 5
      else 0)"

text \<open>
  The signal object.  Its \<open>id\<close> and \<open>metadata\<close> (clock and random number) and the echoes
  of the inputs (\<open>prediction\<close>, \<open>technicals\<close>) are left out.
\<close>

record trading_signal =
  timeframe :: string
  signal :: direction
  strength :: real
  confidence :: real
  sig_indicators :: "string list"
  reasons :: "reason list"
  sig_scores :: scores

text \<open>
  The eight analyses in the order of the source, each on the components left by the one
  before.
\<close>

definition run_analyses :: "indicators \<Rightarrow> prediction \<Rightarrow> real \<Rightarrow> scores \<times> components" where
  "run_analyses ind pr currentPrice =
     (let (mlScore, c1) = analyzeMlPrediction pr initial_components;
          (rsiScore, c2) = analyzeRSI (rsi ind) c1;
          (macdScore, c3) = analyzeMacd (macd ind) c2;
          (maScore, c4) = analyzeMovingAverages ind currentPrice c3;
          (bbScore, c5) = analyzeBollingerBands (bollingerBands ind) currentPrice c4;
          (stochScore, c6) = analyzeStochastic (stochastic ind) c5;
          (volumeScore, c7) = analyzeVolume (volumeRatio ind) c6;
          (srScore, c8) = analyzeSupportResistance (supportResistance ind) currentPrice c7
      in (\<lparr> sc_ml = mlScore, sc_rsi = rsiScore, sc_macd = macdScore, sc_ma = maScore,
             sc_bb = bbScore, sc_stoch = stochScore, sc_volume = volumeScore, sc_sr = srScore \<rparr>,
          c8))"

definition generateTimeframeSignal ::
    "string \<Rightarrow> indicators option \<Rightarrow> prediction option \<Rightarrow> sentiment_data \<Rightarrow> real
       \<Rightarrow> trading_signal option" where
  "generateTimeframeSignal tf ind pr sd currentPrice =
     (case (ind, pr) of
        (Some i, Some p) \<Rightarrow>
          let (sc, c) = run_analyses i p currentPrice;
              finalStrength = calculateWeightedStrength sc;
              sentimentAdjustment = applySentimentConfirmation sd (c_direction c)
          in Some \<lparr> timeframe = tf,
                    signal = c_direction c,
                    strength = min 95 (finalStrength + sentimentAdjustment),
                    confidence = c_confidence c,
                    sig_indicators = c_indicators c,
                    reasons = c_reasons c,
                    sig_scores = sc \<rparr>
      | _ \<Rightarrow> None)"

text \<open>
  \<open>filterAndRankSignals\<close>: the filter, then \<open>Array.prototype.sort\<close> (stable) with the
  comparator \<open>scoreB - scoreA\<close>, that is, by descending score.
\<close>

definition rank_score :: "trading_signal \<Rightarrow> real" where
  "rank_score s = strength s * 0.7 + confidence s * 0.3"

definition filterAndRankSignals :: "trading_signal list \<Rightarrow> trading_signal list" where
  "filterAndRankSignals sigs =
     sort_key (\<lambda>s. - rank_score s)
       (filter (\<lambda>s. strength s \<ge> MIN_SIGNAL_STRENGTH \<and> confidence s \<ge> 50
                     \<and> length (reasons s) \<ge> 2) sigs)"

text \<open>
  The part of \<open>botState\<close> that signal generation reads, and the technical data that
  \<open>fetchMultiTimeframeData\<close> returns (an object keyed by timeframe; a timeframe whose
  fetch failed or was too short is missing).
\<close>

record bot_state =
  bs_currentPrice :: "real option"
  bs_predictions :: "(string \<times> prediction) list"
  bs_sentimentData :: "sentiment_data option"

datatype signal_error = SignalError

definition validatePrerequisites :: "bot_state \<Rightarrow> bool" where
  "validatePrerequisites bs =
     (if falsy_num (bs_currentPrice bs) \<or> the (bs_currentPrice bs) \<le> 0 then False
      else if bs_predictions bs = [] then False
      else if bs_sentimentData bs = None then False
      else True)"

definition generateTradingSignals ::
    "bot_state \<Rightarrow> (string \<times> indicators) list \<Rightarrow> signal_error + trading_signal list" where
  "generateTradingSignals bs technicalData =
     (if \<not> validatePrerequisites bs then Inl SignalError
      else
        let generated = map (\<lambda>tf. generateTimeframeSignal tf (map_of technicalData tf)
                                     (map_of (bs_predictions bs) tf) (the (bs_sentimentData bs))
                                     (the (bs_currentPrice bs))) TIMEFRAMES;
            signals = concat (map (\<lambda>g. case g of
                                          Some s \<Rightarrow> if strength s \<ge> MIN_SIGNAL_STRENGTH then [s] else []
                                        | None \<Rightarrow> []) generated)
        in Inr (filterAndRankSignals signals))"


text \<open>
  The votes of the factors, for stating what each contributes: the direction a factor
  speaks for, if any.  The ML prediction votes only above confidence 60; the volume
  factor has no direction.
\<close>

definition vote_ml :: "prediction \<Rightarrow> direction option" where
  "vote_ml pr =
     (if pr_confidence pr > 60
      then (if pr_direction pr = ''BULLISH'' then Some BUY
            else if pr_direction pr = ''BEARISH'' then Some SELL
            else None)
      else None)"

definition vote_rsi :: "real \<Rightarrow> direction option" where
  "vote_rsi r =
     (if r < RSI_OVERSOLD then Some BUY else if r > RSI_OVERBOUGHT then Some SELL else None)"

definition vote_macd :: "macd_values \<Rightarrow> direction option" where
  "vote_macd m =
     (if mv_histogram m > 0 \<and> mv_macd m > mv_signal m then Some BUY
      else if mv_histogram m < 0 \<and> mv_macd m < mv_signal m then Some SELL
      else None)"

definition vote_ma :: "indicators \<Rightarrow> real \<Rightarrow> direction option" where
  "vote_ma ind currentPrice =
     (if currentPrice > sma20 ind \<and> sma20 ind > sma50 ind then Some BUY
      else if currentPrice < sma20 ind \<and> sma20 ind < sma50 ind then Some SELL
      else None)"

definition vote_bb :: "bollinger_values \<Rightarrow> real \<Rightarrow> direction option" where
  "vote_bb bb currentPrice =
     (if currentPrice < bb_lower bb then Some BUY
      else if currentPrice > bb_upper bb then Some SELL
      else None)"

definition vote_stoch :: "stochastic_values \<Rightarrow> direction option" where
  "vote_stoch st =
     (if st_k st < STOCH_OVERSOLD \<and> st_d st < STOCH_OVERSOLD then Some BUY
      else if st_k st > STOCH_OVERBOUGHT \<and> st_d st > STOCH_OVERBOUGHT then Some SELL
      else None)"

definition vote_sr :: "support_resistance \<Rightarrow> real \<Rightarrow> direction option" where
  "vote_sr sr currentPrice =
     (if currentPrice \<le> sr_support sr * 1.02 then Some BUY
      else if currentPrice \<ge> sr_resistance sr * 0.98 then Some SELL
      else None)"

text \<open>
  The direction the first two analyses leave behind: the ML vote if there is one, else
  the RSI vote, else \<open>HOLD\<close>.
\<close>

definition established_direction :: "prediction \<Rightarrow> real \<Rightarrow> direction" where
  "established_direction pr r =
     (case vote_ml pr of
        Some d \<Rightarrow> d
      | None \<Rightarrow> (case vote_rsi r of Some d \<Rightarrow> d | None \<Rightarrow> HOLD))"

text \<open>The contribution of a factor that counts only when its vote is the direction.\<close>

definition gated_score :: "real \<Rightarrow> direction option \<Rightarrow> direction \<Rightarrow> real" where
  "gated_score w vote dir = (if vote = Some dir then w * 100 else 0)"


section \<open>Consensus across timeframes (signals.js)\<close>

record consensus_side =
  cs_count :: nat
  cs_avgStrength :: real
  cs_avgConfidence :: real
  cs_signals :: "trading_signal list"

record consensus =
  cons_buy :: consensus_side
  cons_sell :: consensus_side

definition consensus_of :: "trading_signal list \<Rightarrow> consensus_side" where
  "consensus_of ss =
     \<lparr> cs_count = length ss,
       cs_avgStrength = (if length ss > 0 then sum_list (map strength ss) / real (length ss) else 0),
       cs_avgConfidence = (if length ss > 0 then sum_list (map confidence ss) / real (length ss) else 0),
       cs_signals = ss \<rparr>"

definition analyzeSignalConsensus :: "trading_signal list \<Rightarrow> consensus" where
  "analyzeSignalConsensus signals =
     (let buySignals = filter (\<lambda>s. signal s = BUY \<and> strength s > STRONG_SIGNAL_THRESHOLD) signals;
          sellSignals = filter (\<lambda>s. signal s = SELL \<and> strength s > STRONG_SIGNAL_THRESHOLD) signals
      in \<lparr> cons_buy = consensus_of buySignals, cons_sell = consensus_of sellSignals \<rparr>)"

text \<open>
  The two conditions under which \<open>analyzeAndExecuteSignals\<close> hands the consensus to
  \<open>executeBuySignals\<close> and to \<open>executeSellSignals\<close>.
\<close>

definition buy_eligible :: "trading_signal list \<Rightarrow> bool" where
  "buy_eligible signals =
     (let c = analyzeSignalConsensus signals
      in cs_count (cons_buy c) \<ge> CONSENSUS_THRESHOLD
         \<and> cs_avgStrength (cons_buy c) > STRONG_SIGNAL_THRESHOLD)"

definition sell_eligible :: "trading_signal list \<Rightarrow> bool" where
  "sell_eligible signals =
     (let c = analyzeSignalConsensus signals
      in cs_count (cons_sell c) \<ge> CONSENSUS_THRESHOLD
         \<and> cs_avgStrength (cons_sell c) > STRONG_SIGNAL_THRESHOLD)"

text \<open>
  The eligibility rule in the words of the specification: at least two signals of the
  direction with strength above 75, and the average strength of those above 75.
\<close>

definition spec_eligible :: "direction \<Rightarrow> trading_signal list \<Rightarrow> bool" where
  "spec_eligible d signals =
     (let agreeing = filter (\<lambda>s. signal s = d \<and> strength s > 75) signals
      in length agreeing \<ge> 2
         \<and> sum_list (map strength agreeing) / real (length agreeing) > 75)"


section \<open>Position monitor (signals.js)\<close>

text \<open>
  A field that holds a number, \<open>null\<close> or nothing.  The trading module creates its
  positions with \<open>stopLoss: null\<close>, and a comparison turns \<open>null\<close> into 0 and
  \<open>undefined\<close> into \<open>NaN\<close>.
\<close>

datatype js_value = JsUndefined | JsNull | JsNumber real

fun to_number :: "js_value \<Rightarrow> jsnum" where
  "to_number JsUndefined = NaN"
| "to_number JsNull = Num 0"
| "to_number (JsNumber v) = Num v"

fun value_falsy :: "js_value \<Rightarrow> bool" where
  "value_falsy (JsNumber v) = (v = 0)"
| "value_falsy _ = True"

text \<open>
  A position as the monitor reads and writes it.  \<open>pos_type\<close> is \<open>None\<close> when the
  object has no \<open>type\<close> field (the only test is \<open>position.type === 'BUY'\<close>);
  \<open>pos_trailingStop\<close> is the truthiness of the \<open>trailingStop\<close> field; for the take
  profit and the trailing distance only truthiness is tested before they are used, so
  \<open>None\<close> stands for \<open>undefined\<close> and \<open>null\<close> alike.
\<close>

record position =
  pos_type :: "string option"
  pos_entryPrice :: real
  pos_size :: real
  pos_currentPrice :: real
  pos_pnl :: real
  pos_pnlPercentage :: jsnum
  pos_stopLoss :: js_value
  pos_takeProfit :: "real option"
  pos_trailingStop :: bool
  pos_trailingStopDistance :: "real option"
  pos_pnlHistory :: "(real \<times> real \<times> real) list"

text \<open>
  \<open>updatePositionMetrics\<close>; \<open>t\<close> is \<open>Date.now()\<close>, and a history entry is
  (timestamp, pnl, price).
\<close>

definition updatePositionMetrics :: "real \<Rightarrow> position \<Rightarrow> real \<Rightarrow> position" where
  "updatePositionMetrics t pos currentPrice =
     (let priceDiff = currentPrice - pos_entryPrice pos;
          pnl = priceDiff * pos_size pos;
          pnlPercentage = jmul (jdiv (Num priceDiff) (Num (pos_entryPrice pos))) (Num 100);
          pnl' = (if pos_type pos = Some ''BUY'' then pnl else - pnl);
          history = pos_pnlHistory pos @ [(t, pnl', currentPrice)]
      in pos\<lparr> pos_currentPrice := currentPrice,
              pos_pnl := pnl',
              pos_pnlPercentage :=
                (if pos_type pos = Some ''BUY'' then pnlPercentage else jneg pnlPercentage),
              pos_pnlHistory :=
                (if length history > 100 then drop (length history - 100) history
                 else history) \<rparr>)"

definition shouldTriggerStopLoss :: "position \<Rightarrow> real \<Rightarrow> bool" where
  "shouldTriggerStopLoss pos currentPrice =
     (if value_falsy (pos_stopLoss pos) then False
      else if pos_type pos = Some ''BUY''
      then jle (Num currentPrice) (to_number (pos_stopLoss pos))
      else jge (Num currentPrice) (to_number (pos_stopLoss pos)))"

definition shouldTriggerTakeProfit :: "position \<Rightarrow> real \<Rightarrow> bool" where
  "shouldTriggerTakeProfit pos currentPrice =
     (if falsy_num (pos_takeProfit pos) then False
      else if pos_type pos = Some ''BUY'' then currentPrice \<ge> the (pos_takeProfit pos)
      else currentPrice \<le> the (pos_takeProfit pos))"

text \<open>
  \<open>shouldUpdateTrailingStop\<close>.  The new stop is compared with the stored one as it
  is: against \<open>null\<close> the comparison is against 0, against \<open>undefined\<close> it is false.
\<close>

definition shouldUpdateTrailingStop :: "position \<Rightarrow> real \<Rightarrow> bool" where
  "shouldUpdateTrailingStop pos currentPrice =
     (if \<not> pos_trailingStop pos \<or> falsy_num (pos_trailingStopDistance pos) then False
      else if pos_type pos = Some ''BUY''
      then jgt (Num (currentPrice - the (pos_trailingStopDistance pos)))
               (to_number (pos_stopLoss pos))
      else jlt (Num (currentPrice + the (pos_trailingStopDistance pos)))
               (to_number (pos_stopLoss pos)))"

text \<open>
  \<open>updateTrailingStop\<close>.  Its only caller has checked that the distance is present;
  without one the source would store \<open>NaN\<close>, which the model leaves out.  After the
  assignment the function logs \<open>oldStopLoss.toFixed(2)\<close>, which throws when the old
  stop was \<open>null\<close> or \<open>undefined\<close>; the new stop is stored by then.
\<close>

definition updateTrailingStop :: "position \<Rightarrow> real \<Rightarrow> position" where
  "updateTrailingStop pos currentPrice =
     (case pos_trailingStopDistance pos of
        None \<Rightarrow> pos
      | Some distance \<Rightarrow>
          if pos_type pos = Some ''BUY''
          then pos\<lparr> pos_stopLoss := JsNumber (currentPrice - distance) \<rparr>
          else pos\<lparr> pos_stopLoss := JsNumber (currentPrice + distance) \<rparr>)"

fun updateTrailingStop_throws :: "js_value \<Rightarrow> bool" where
  "updateTrailingStop_throws (JsNumber _) = False"
| "updateTrailingStop_throws _ = True"

text \<open>
  \<open>RiskManager.assessPositionRisk\<close> is not a method of the risk manager class of this
  repository, where the call throws a \<open>TypeError\<close> that the monitor catches.  Its
  outcome at each tick is an input, so that the model also covers a risk manager that
  has the method: the call throws, asks for an exit, or lets the monitor go on.
\<close>

datatype risk_check = RiskCheckThrows | ShouldExit | NoExit

datatype monitor_action =
    MonitorError
  | RiskExit
  | StopLossExit
  | TakeProfitExit
  | TrailingStopMoved
  | NoAction

record tick =
  tk_time :: real
  tk_price :: real
  tk_risk :: risk_check

text \<open>
  \<open>monitorSinglePosition\<close>.  The exits notify and place an order but do not write to
  the position; an exception anywhere is caught and logged.
\<close>

definition monitorSinglePosition :: "position \<Rightarrow> tick \<Rightarrow> position \<times> monitor_action" where
  "monitorSinglePosition pos tk =
     (let currentPrice = tk_price tk;
          p1 = updatePositionMetrics (tk_time tk) pos currentPrice
      in case tk_risk tk of
           RiskCheckThrows \<Rightarrow> (p1, MonitorError)
         | ShouldExit \<Rightarrow> (p1, RiskExit)
         | NoExit \<Rightarrow>
             if \<not> value_falsy (pos_stopLoss p1) \<and> shouldTriggerStopLoss p1 currentPrice
             then (p1, StopLossExit)
             else if \<not> falsy_num (pos_takeProfit p1) \<and> shouldTriggerTakeProfit p1 currentPrice
             then (p1, TakeProfitExit)
             else if pos_trailingStop p1 \<and> shouldUpdateTrailingStop p1 currentPrice
             then (updateTrailingStop p1 currentPrice,
                   if updateTrailingStop_throws (pos_stopLoss p1) then MonitorError
                   else TrailingStopMoved)
             else (p1, NoAction))"

text \<open>The position after a sequence of ticks.\<close>

fun monitor_ticks :: "position \<Rightarrow> tick list \<Rightarrow> position" where
  "monitor_ticks pos [] = pos"
| "monitor_ticks pos (tk # tks) = monitor_ticks (fst (monitorSinglePosition pos tk)) tks"


section \<open>Position management (trading.js)\<close>











section \<open>Indicator library (trading.js)\<close>

text \<open>The constants of \<open>TECHNICAL_INDICATORS\<close>.\<close>

definition RSI_PERIOD :: nat where "RSI_PERIOD = 14"
definition MACD_FAST :: nat where "MACD_FAST = 12"
definition MACD_SLOW :: nat where "MACD_SLOW = 26"
definition MACD_SIGNAL :: nat where "MACD_SIGNAL = 9"
definition STOCH_PERIOD :: nat where "STOCH_PERIOD = 14"
definition STOCH_SMOOTH :: nat where "STOCH_SMOOTH = 3"

record candle =
  cd_open :: real
  cd_high :: real
  cd_low :: real
  cd_close :: real
  cd_volume :: real

text \<open>
  \<open>calculateEMA\<close>.  On an empty array shorter than the period the source returns
  \<open>undefined\<close>; every caller uses the result in arithmetic, where it counts as \<open>NaN\<close>.
\<close>

definition calculateEMA :: "jsnum list \<Rightarrow> nat \<Rightarrow> jsnum" where
  "calculateEMA data period =
     (if length data < period then (if data = [] then NaN else last data)
      else
        let multiplier = Num (2 / (real period + 1));
            ema0 = jdiv (jsum (take period data)) (Num (real period))
        in foldl (\<lambda>ema x. jadd (jmul (jsub x ema) multiplier) ema) ema0 (drop period data))"

text \<open>
  The RSI object.  A field the short-window return leaves out is \<open>None\<close>
  (\<open>undefined\<close>), and so is \<open>current\<close> when no RSI value was computed.  The
  \<open>divergence\<close> field is not modelled.
\<close>

record rsi_result =
  rsi_current :: "jsnum option"
  rsi_previous :: "jsnum option"
  rsi_trend :: string
  rsi_overbought :: "bool option"
  rsi_oversold :: "bool option"

definition rsi_neutral :: rsi_result where
  "rsi_neutral = \<lparr> rsi_current = Some (Num 50), rsi_previous = Some (Num 50),
     rsi_trend = ''neutral'', rsi_overbought = None, rsi_oversold = None \<rparr>"

text \<open>A number that may be \<open>undefined\<close>, used in a comparison.\<close>

definition num_of :: "jsnum option \<Rightarrow> jsnum" where
  "num_of x = (case x of None \<Rightarrow> NaN | Some v \<Rightarrow> v)"

text \<open>\<open>xs[xs.length - 2] || dflt\<close>.\<close>

definition second_last_or :: "jsnum list \<Rightarrow> jsnum option \<Rightarrow> jsnum option" where
  "second_last_or xs dflt =
     (if length xs \<ge> 2 \<and> js_truthy (xs ! (length xs - 2)) then Some (xs ! (length xs - 2))
      else dflt)"

text \<open>One round of Wilder's smoothing: the two averages and the RSI values so far.\<close>

definition rsi_step :: "nat \<Rightarrow> jsnum \<times> jsnum \<times> jsnum list \<Rightarrow> real \<times> real
                         \<Rightarrow> jsnum \<times> jsnum \<times> jsnum list" where
  "rsi_step period acc gl =
     (case acc of (avgGain, avgLoss, rsiValues) \<Rightarrow>
        let avgGain' = jdiv (jadd (jmul avgGain (Num (real period - 1))) (Num (fst gl)))
                            (Num (real period));
            avgLoss' = jdiv (jadd (jmul avgLoss (Num (real period - 1))) (Num (snd gl)))
                            (Num (real period))
        in if avgLoss' = Num 0 then (avgGain', avgLoss', rsiValues @ [Num 100])
           else
             let rs = jdiv avgGain' avgLoss'
             in (avgGain', avgLoss',
                 rsiValues @ [jsub (Num 100) (jdiv (Num 100) (jadd (Num 1) rs))]))"

definition calculateRSI :: "real list \<Rightarrow> nat \<Rightarrow> rsi_result" where
  "calculateRSI closes period =
     (if length closes < period + 1 then rsi_neutral
      else
        let changes = map (\<lambda>i. closes ! (i + 1) - closes ! i) [0..<length closes - 1];
            gains = map (\<lambda>c. if c > 0 then c else 0) changes;
            losses = map (\<lambda>c. if c < 0 then \<bar>c\<bar> else 0) changes;
            avgGain0 = jdiv (Num (sum_list (take period gains))) (Num (real period));
            avgLoss0 = jdiv (Num (sum_list (take period losses))) (Num (real period));
            rsiValues = snd (snd (foldl (rsi_step period) (avgGain0, avgLoss0, [])
                                     (drop period (zip gains losses))));
            current = (if rsiValues = [] then None else Some (last rsiValues));
            previous = second_last_or rsiValues current
        in \<lparr> rsi_current = current,
             rsi_previous = previous,
             rsi_trend = (if jgt (num_of current) (num_of previous) then ''rising''
                          else if jlt (num_of current) (num_of previous) then ''falling''
                          else ''neutral''),
             rsi_overbought = Some (jgt (num_of current) (Num 70)),
             rsi_oversold = Some (jlt (num_of current) (Num 30)) \<rparr>)"

record macd_result =
  macd_macd :: jsnum
  macd_signal :: jsnum
  macd_histogram :: jsnum
  macd_previousHistogram :: "jsnum option"
  macd_trend :: string
  macd_bullishCrossover :: "bool option"
  macd_bearishCrossover :: "bool option"

definition macd_neutral :: macd_result where
  "macd_neutral = \<lparr> macd_macd = Num 0, macd_signal = Num 0, macd_histogram = Num 0,
     macd_previousHistogram = None, macd_trend = ''neutral'',
     macd_bullishCrossover = None, macd_bearishCrossover = None \<rparr>"

text \<open>
  \<open>calculateMACD\<close>.  The loop index \<open>i\<close> runs from \<open>slowPeriod - 1\<close> to the last
  index, and each round works on \<open>closes.slice(0, i + 1)\<close>; \<open>n\<close> below is \<open>i + 1\<close>.
\<close>

definition calculateMACD :: "real list \<Rightarrow> nat \<Rightarrow> nat \<Rightarrow> nat \<Rightarrow> macd_result" where
  "calculateMACD closes fastPeriod slowPeriod signalPeriod =
     (if length closes < slowPeriod then macd_neutral
      else
        let macdLine = map (\<lambda>n. jsub (calculateEMA (map Num (take n closes)) fastPeriod)
                                      (calculateEMA (map Num (take n closes)) slowPeriod))
                           [slowPeriod..<length closes + 1];
            signalLine = calculateEMA macdLine signalPeriod;
            m = last macdLine;
            histogram = jsub m signalLine;
            previousHistogram =
              (if length macdLine > 1
               then jsub (macdLine ! (length macdLine - 2))
                         (calculateEMA (butlast macdLine) signalPeriod)
               else Num 0)
        in \<lparr> macd_macd = m,
             macd_signal = signalLine,
             macd_histogram = histogram,
             macd_previousHistogram = Some previousHistogram,
             macd_trend = (if jgt histogram previousHistogram then ''rising'' else ''falling''),
             macd_bullishCrossover = Some (jgt histogram (Num 0) \<and> jle previousHistogram (Num 0)),
             macd_bearishCrossover = Some (jlt histogram (Num 0) \<and> jge previousHistogram (Num 0)) \<rparr>)"

record stoch_result =
  stoch_k :: jsnum
  stoch_d :: jsnum
  stoch_previousK :: "jsnum option"
  stoch_trend :: string
  stoch_overbought :: "bool option"
  stoch_oversold :: "bool option"
  stoch_bullishCrossover :: "bool option"
  stoch_bearishCrossover :: "bool option"

definition stoch_neutral :: stoch_result where
  "stoch_neutral = \<lparr> stoch_k = Num 50, stoch_d = Num 50, stoch_previousK = None,
     stoch_trend = ''neutral'', stoch_overbought = None, stoch_oversold = None,
     stoch_bullishCrossover = None, stoch_bearishCrossover = None \<rparr>"

text \<open>\<open>Math.max(...xs)\<close> and \<open>Math.min(...xs)\<close>; of no arguments they are the infinities.\<close>

definition js_max_list :: "real list \<Rightarrow> jsnum" where
  "js_max_list xs = (if xs = [] then NegInf else Num (Max (set xs)))"

definition js_min_list :: "real list \<Rightarrow> jsnum" where
  "js_min_list xs = (if xs = [] then PosInf else Num (Min (set xs)))"

text \<open>
  One \<open>%K\<close> value: \<open>n\<close> is \<open>i + 1\<close> for the loop index \<open>i\<close>, the window is
  \<open>slice(i - period + 1, i + 1)\<close> and the close is \<open>closes[i]\<close> (\<open>undefined\<close> for
  \<open>i = -1\<close>, which only a period of 0 reaches).
\<close>

definition stoch_k_at :: "real list \<Rightarrow> real list \<Rightarrow> real list \<Rightarrow> nat \<Rightarrow> nat \<Rightarrow> jsnum" where
  "stoch_k_at highs lows closes period n =
     (let highestHigh = js_max_list (take period (drop (n - period) highs));
          lowestLow = js_min_list (take period (drop (n - period) lows));
          currentClose = (if n = 0 then NaN else Num (closes ! (n - 1)));
          k = jmul (jdiv (jsub currentClose lowestLow) (jsub highestHigh lowestLow)) (Num 100)
      in if k = NaN then Num 50 else k)"

definition calculateStochastic :: "real list \<Rightarrow> real list \<Rightarrow> real list \<Rightarrow> nat \<Rightarrow> stoch_result" where
  "calculateStochastic highs lows closes period =
     (if length closes < period then stoch_neutral
      else
        let kValues = map (stoch_k_at highs lows closes period) [period..<length closes + 1];
            dValues = map (\<lambda>i. jdiv (jsum (take STOCH_SMOOTH (drop (i + 1 - STOCH_SMOOTH) kValues)))
                                      (Num (real STOCH_SMOOTH)))
                          [STOCH_SMOOTH - 1..<length kValues];
            k = last kValues;
            d = (if dValues \<noteq> [] \<and> js_truthy (last dValues) then last dValues else k);
            previousK = num_of (second_last_or kValues (Some k))
        in \<lparr> stoch_k = k,
             stoch_d = d,
             stoch_previousK = Some previousK,
             stoch_trend = (if jgt k previousK then ''rising'' else ''falling''),
             stoch_overbought = Some (jgt k (Num 80)),
             stoch_oversold = Some (jlt k (Num 20)),
             stoch_bullishCrossover = Some (jgt k d \<and> jle previousK d),
             stoch_bearishCrossover = Some (jlt k d \<and> jge previousK d) \<rparr>)"

text \<open>
  \<open>calculateIndicators\<close>: the guard on the window and the three momentum indicators.
  The other analyses of the function (moving averages, Bollinger bands, ATR, volume,
  support and resistance, trend, patterns) are not modelled, so a result \<open>Inr\<close> says
  only that the guard let the window through and what the three indicators are.
\<close>

record indicator_options =
  opt_rsiPeriod :: "nat option"
  opt_macdFast :: "nat option"
  opt_macdSlow :: "nat option"
  opt_macdSignal :: "nat option"
  opt_stochPeriod :: "nat option"

definition no_options :: indicator_options where
  "no_options = \<lparr> opt_rsiPeriod = None, opt_macdFast = None, opt_macdSlow = None,
     opt_macdSignal = None, opt_stochPeriod = None \<rparr>"

record momentum =
  mo_rsi :: rsi_result
  mo_macd :: macd_result
  mo_stochastic :: stoch_result

definition calculateIndicators :: "candle list \<Rightarrow> indicator_options \<Rightarrow> error_type + momentum" where
  "calculateIndicators data options =
     (if length data < 20 then Inl ValidationError
      else
        let closes = map cd_close data;
            highs = map cd_high data;
            lows = map cd_low data
        in Inr \<lparr>
             mo_rsi = calculateRSI closes
                        (case opt_rsiPeriod options of
                           None \<Rightarrow> RSI_PERIOD
                         | Some n \<Rightarrow> if n = 0 then RSI_PERIOD else n),
             mo_macd = calculateMACD closes
                         (case opt_macdFast options of None \<Rightarrow> MACD_FAST | Some n \<Rightarrow> n)
                         (case opt_macdSlow options of None \<Rightarrow> MACD_SLOW | Some n \<Rightarrow> n)
                         (case opt_macdSignal options of None \<Rightarrow> MACD_SIGNAL | Some n \<Rightarrow> n),
             mo_stochastic = calculateStochastic highs lows closes
                               (case opt_stochPeriod options of None \<Rightarrow> STOCH_PERIOD | Some n \<Rightarrow> n) \<rparr>)"


section \<open>Concrete inputs\<close>

text \<open>
  A manager built through its own interface: constructed with the default configuration,
  told that the portfolio is worth 10000, and, for the second one, after a position was
  registered and closed at a loss of 300 on the same day.
\<close>

definition ex_clock :: clock where
  "ex_clock = \<lparr> now = 1000000, today = ''Mon Nov 02 2026'' \<rparr>"

definition ex_later :: clock where
  "ex_later = \<lparr> now = 2000000, today = ''Mon Nov 02 2026'' \<rparr>"

definition ex_position :: rm_position where
  "ex_position = \<lparr> rp_id = ''p1'', rp_symbol = ''ETH/USDT'', rp_side = ''buy'', rp_amount = 1,
     rp_entryPrice = 3000, rp_stopLoss = Some 2700, rp_takeProfit = Some 3600,
     rp_openTime = 0, rp_unrealizedPnL = 0 \<rparr>"

definition ex_manager :: risk_manager where
  "ex_manager = updatePortfolioValue (new_RiskManager ex_clock no_config) 10000"

definition ex_manager_after_loss :: risk_manager where
  "ex_manager_after_loss =
     closePosition ex_clock (registerPosition ex_clock ex_manager ex_position) ''p1'' (- 300)"

text \<open>A long trade at price 50000 with stop 49000 and target 52000, of the given amount.\<close>

definition ex_trade :: "real \<Rightarrow> trade_params" where
  "ex_trade a = \<lparr> symbol = Some ''BTC/USDT'', side = Some ''buy'', amount = Some a,
     price = Some 50000, leverage = None, stopLoss = Some 49000, takeProfit = Some 52000 \<rparr>"

lemmas ex_risk_defs =
  ex_manager_after_loss_def ex_manager_def ex_later_def ex_clock_def ex_position_def
  ex_trade_def closePosition_def registerPosition_def updatePortfolioValue_def
  new_RiskManager_def no_config_def

lemmas validate_defs =
  validateTrade_def resetDailyStatsIfNewDay_def Let_def falsy_str_def falsy_num_def
  isSymbolInCooldown_def calculateDrawdown_def calculateRiskRewardRatio_def
  calculateOptimalPositionSize_def toLowerCase_def lower_char_def jmin_def


text \<open>
  Indicators and a bullish prediction of a given confidence for the scorer, at a current
  price of 50000.
\<close>

definition ex_indicators :: indicators where
  "ex_indicators = \<lparr> rsi = 25,
     macd = \<lparr> mv_macd = 2, mv_signal = 1, mv_histogram = 1 \<rparr>,
     sma20 = 49000, sma50 = 48000,
     bollingerBands = \<lparr> bb_upper = 51000, bb_lower = 47000 \<rparr>,
     stochastic = \<lparr> st_k = 50, st_d = 50 \<rparr>,
     volumeRatio = 1,
     supportResistance = \<lparr> sr_support = 45000, sr_resistance = 55000 \<rparr> \<rparr>"

definition ex_prediction :: "real \<Rightarrow> prediction" where
  "ex_prediction conf = \<lparr> pr_direction = ''BULLISH'', pr_confidence = conf,
     pr_priceChangePercent = Some 2.5 \<rparr>"

definition ex_sentiment :: sentiment_data where
  "ex_sentiment = \<lparr> sentiment = ''BULLISH'' \<rparr>"

definition ex_bot_state :: bot_state where
  "ex_bot_state = \<lparr> bs_currentPrice = Some 50000,
     bs_predictions = [(''1h'', ex_prediction 100)],
     bs_sentimentData = Some ex_sentiment \<rparr>"

lemmas scorer_defs =
  run_analyses_def analyzeMlPrediction_def analyzeRSI_def analyzeMacd_def
  analyzeMovingAverages_def analyzeBollingerBands_def analyzeStochastic_def analyzeVolume_def
  analyzeSupportResistance_def push_tag_def initial_components_def
  W_ML_PREDICTION_def W_RSI_def W_MACD_def W_MOVING_AVERAGES_def W_BOLLINGER_BANDS_def
  W_STOCHASTIC_def W_VOLUME_def W_SUPPORT_RESISTANCE_def
  RSI_OVERSOLD_def RSI_OVERBOUGHT_def STOCH_OVERSOLD_def STOCH_OVERBOUGHT_def VOLUME_SURGE_def

lemmas ex_scorer_defs =
  ex_indicators_def ex_prediction_def ex_sentiment_def ex_bot_state_def


text \<open>The technical data and the signal it yields with an ML confidence of 100.\<close>

definition ex_technical :: "(string \<times> indicators) list" where
  "ex_technical = [(''1h'', ex_indicators)]"

definition ex_signal :: trading_signal where
  "ex_signal = \<lparr> timeframe = ''1h'', signal = BUY, strength = 95, confidence = 100,
              sig_indicators = [''ML_BULLISH'', ''RSI_OVERSOLD'', ''MACD_BULLISH'', ''MA_BULLISH''],
              reasons = [AiPredictsIncrease (Some 2.5), RsiOversold 25, MacdBullishCrossover,
                         PriceAboveMovingAverages],
              sig_scores = \<lparr> sc_ml = 35, sc_rsi = 15, sc_macd = 12, sc_ma = 10, sc_bb = 0,
                              sc_stoch = 0, sc_volume = 0, sc_sr = 0 \<rparr> \<rparr>"

lemmas generate_defs =
  generateTradingSignals_def validatePrerequisites_def falsy_num_def TIMEFRAMES_def
  generateTimeframeSignal_def calculateWeightedStrength_def applySentimentConfirmation_def
  filterAndRankSignals_def MIN_SIGNAL_STRENGTH_def rank_score_def







definition ex_candle :: candle where
  "ex_candle = \<lparr> cd_open = 100, cd_high = 101, cd_low = 99, cd_close = 100, cd_volume = 10 \<rparr>"




section \<open>Risk manager: properties\<close>

lemma reset_fields [simp]:
  "config (resetDailyStatsIfNewDay clk rm) = config rm"
  "portfolioValue (resetDailyStatsIfNewDay clk rm) = portfolioValue rm"
  "peakPortfolioValue (resetDailyStatsIfNewDay clk rm) = peakPortfolioValue rm"
  "openPositions (resetDailyStatsIfNewDay clk rm) = openPositions rm"
  "lastTradeTime (resetDailyStatsIfNewDay clk rm) = lastTradeTime rm"
  by (simp_all add: resetDailyStatsIfNewDay_def)

lemma reset_cooldown [simp]:
  "isSymbolInCooldown clk (resetDailyStatsIfNewDay clk rm) s = isSymbolInCooldown clk rm s"
  by (simp add: isSymbolInCooldown_def split: option.splits)

lemma reset_drawdown [simp]:
  "calculateDrawdown (resetDailyStatsIfNewDay clk rm) = calculateDrawdown rm"
  by (simp add: calculateDrawdown_def)

text \<open>
  C1.  On the same calendar day (the stored reset date is today's, so there is no
  rollover), a manager whose daily P&L is at or below \<open>- maxDailyLoss * portfolioValue\<close>
  rejects every trade, whatever the trade's parameters.
\<close>

theorem validateTrade_daily_loss_rejects:
  assumes "lastResetDate (dailyStats rm) = today clk"
      and "totalPnL (dailyStats rm) \<le> - maxDailyLoss (config rm) * portfolioValue rm"
  shows "\<not> isValid (snd (validateTrade clk rm p))"
  using assms by (simp add: validateTrade_def resetDailyStatsIfNewDay_def Let_def)

theorem validateTrade_daily_loss_rejects_witness:
  "lastResetDate (dailyStats ex_manager_after_loss) = today ex_later
   \<and> totalPnL (dailyStats ex_manager_after_loss)
       \<le> - maxDailyLoss (config ex_manager_after_loss) * portfolioValue ex_manager_after_loss
   \<and> \<not> isValid (snd (validateTrade ex_later ex_manager_after_loss (ex_trade 0.018)))"
proof -
  have same_day: "lastResetDate (dailyStats ex_manager_after_loss) = today ex_later"
    by (simp add: ex_risk_defs)
  have loss: "totalPnL (dailyStats ex_manager_after_loss)
       \<le> - maxDailyLoss (config ex_manager_after_loss) * portfolioValue ex_manager_after_loss"
    by (simp add: ex_risk_defs)
  from validateTrade_daily_loss_rejects [OF same_day loss] same_day loss
  show ?thesis by blast
qed

text \<open>
  C2.  \<open>validateTrade\<close> rolls the daily statistics over first and then applies the
  checks in the fixed order required fields, symbol cooldown, open positions, daily
  loss, drawdown, position size, leverage, risk/reward: its answer is the rejection of
  the first check that is violated (one error type and one reason) and an acceptance
  when none is.  The answer is always a returned value, never an exception: the
  function is total.
\<close>

theorem validateTrade_first_violation:
  "validateTrade clk rm p = validateTrade_spec clk rm p"
  by (simp add: validateTrade_def validateTrade_spec_def validation_checks_def Let_def)

theorem validateTrade_first_violation_witness:
  "validateTrade ex_later ex_manager ((ex_trade 0.03)\<lparr> leverage := Some 10 \<rparr>)
     = validateTrade_spec ex_later ex_manager ((ex_trade 0.03)\<lparr> leverage := Some 10 \<rparr>)
   \<and> snd (validateTrade_spec ex_later ex_manager ((ex_trade 0.03)\<lparr> leverage := Some 10 \<rparr>))
       = Rejected TradingError (PositionSizeExceeded 10)"
  using validateTrade_first_violation [of ex_later ex_manager "(ex_trade 0.03)\<lparr> leverage := Some 10 \<rparr>"]
  by (simp add: validateTrade_spec_def validation_checks_def ex_risk_defs validate_defs)

text \<open>
  C9.  For a manager with portfolio value 10000 and \<open>maxPositionSize\<close> 0.1, a trade of
  position value 1500 that passes the checks before the size check is rejected for its
  position size (the message carries the limit, 10 percent), and the otherwise identical
  trade of position value 900 is valid, provided its leverage and risk/reward ratio
  are within their limits.
\<close>

theorem validateTrade_position_size_example:
  assumes "portfolioValue rm = 10000"
      and "maxPositionSize (config rm) = 0.1"
      and "\<not> falsy_str (symbol p)" and "\<not> falsy_str (side p)"
      and "amount p = Some a" and "price p = Some pr"
      and "a * pr = 1500" and "a' * pr = 900"
      and "\<not> isSymbolInCooldown clk rm (the (symbol p))"
      and "real (length (openPositions rm)) < maxOpenPositions (config rm)"
      and "totalPnL (dailyStats (resetDailyStatsIfNewDay clk rm)) > - maxDailyLoss (config rm) * 10000"
      and "calculateDrawdown rm < maxDrawdown (config rm)"
      and "(case leverage p of None \<Rightarrow> 1 | Some l \<Rightarrow> l) \<le> maxLeverage (config rm)"
      and "calculateRiskRewardRatio (price p) (stopLoss p) (takeProfit p) (the (side p))
             \<ge> minRiskRewardRatio (config rm)"
  shows "snd (validateTrade clk rm p) = Rejected TradingError (PositionSizeExceeded 10)
         \<and> isValid (snd (validateTrade clk rm (p\<lparr> amount := Some a' \<rparr>)))"
proof -
  from assms(7) have "a \<noteq> 0" "pr \<noteq> 0" by auto
  moreover from assms(8) have "a' \<noteq> 0" by auto
  ultimately show ?thesis
    using assms
    by (simp add: validateTrade_def Let_def falsy_num_def)
qed

theorem validateTrade_position_size_example_witness:
  "portfolioValue ex_manager = 10000
   \<and> maxPositionSize (config ex_manager) = 0.1
   \<and> the (amount (ex_trade 0.03)) * the (price (ex_trade 0.03)) = 1500
   \<and> the (amount (ex_trade 0.018)) * the (price (ex_trade 0.018)) = 900
   \<and> snd (validateTrade ex_later ex_manager (ex_trade 0.03))
       = Rejected TradingError (PositionSizeExceeded 10)
   \<and> isValid (snd (validateTrade ex_later ex_manager (ex_trade 0.018)))"
proof -
  have same: "(ex_trade 0.03)\<lparr> amount := Some 0.018 \<rparr> = ex_trade 0.018"
    by (simp add: ex_trade_def)
  have "snd (validateTrade ex_later ex_manager (ex_trade 0.03))
          = Rejected TradingError (PositionSizeExceeded 10)
        \<and> isValid (snd (validateTrade ex_later ex_manager
                          ((ex_trade 0.03)\<lparr> amount := Some 0.018 \<rparr>)))"
    by (rule validateTrade_position_size_example [where a = "0.03" and pr = 50000])
       (simp_all add: ex_risk_defs validate_defs)
  then show ?thesis
    unfolding same by (simp add: ex_risk_defs)
qed

text \<open>
  C10.  When the stop loss or the take profit is missing (or zero), or the risk computed
  from entry and stop is not positive, the risk/reward ratio is 0, and a manager whose
  \<open>minRiskRewardRatio\<close> is positive rejects the trade.
\<close>

theorem validateTrade_needs_stop_and_target:
  assumes "minRiskRewardRatio (config rm) > 0"
      and "falsy_num (stopLoss p) \<or> falsy_num (takeProfit p)
           \<or> (if toLowerCase (the (side p)) = ''buy''
               then the (price p) - the (stopLoss p)
               else the (stopLoss p) - the (price p)) \<le> 0"
  shows "calculateRiskRewardRatio (price p) (stopLoss p) (takeProfit p) (the (side p)) = 0
         \<and> \<not> isValid (snd (validateTrade clk rm p))"
proof -
  have rr: "calculateRiskRewardRatio (price p) (stopLoss p) (takeProfit p) (the (side p)) = 0"
    using assms(2) by (auto simp add: calculateRiskRewardRatio_def Let_def)
  show ?thesis
    using assms(1) rr by (simp add: validateTrade_def Let_def)
qed

theorem validateTrade_needs_stop_and_target_witness:
  "minRiskRewardRatio (config ex_manager) > 0
   \<and> falsy_num (stopLoss ((ex_trade 0.018)\<lparr> stopLoss := None \<rparr>))
   \<and> isValid (snd (validateTrade ex_later ex_manager (ex_trade 0.018)))
   \<and> \<not> isValid (snd (validateTrade ex_later ex_manager ((ex_trade 0.018)\<lparr> stopLoss := None \<rparr>)))"
proof -
  have pos: "minRiskRewardRatio (config ex_manager) > 0"
    by (simp add: ex_risk_defs)
  have missing: "falsy_num (stopLoss ((ex_trade 0.018)\<lparr> stopLoss := None \<rparr>))"
    by (simp add: falsy_num_def)
  have ok: "isValid (snd (validateTrade ex_later ex_manager (ex_trade 0.018)))"
    by (simp add: ex_risk_defs validate_defs)
  from validateTrade_needs_stop_and_target [OF pos disjI1 [OF missing], of ex_later] pos missing ok
  show ?thesis by blast
qed

section \<open>Signal scorer: properties\<close>

lemma ml_facts:
  "fst (analyzeMlPrediction pr c) = (if pr_confidence pr > 60 then pr_confidence pr * 0.35 else 0)"
  "c_direction (snd (analyzeMlPrediction pr c)) = (case vote_ml pr of Some d \<Rightarrow> d | None \<Rightarrow> c_direction c)"
  "c_confidence (snd (analyzeMlPrediction pr c))
     = (if pr_confidence pr > 60 then max (c_confidence c) (pr_confidence pr) else c_confidence c)"
  by (simp_all add: analyzeMlPrediction_def push_tag_def vote_ml_def W_ML_PREDICTION_def Let_def)

lemma rsi_facts:
  "fst (analyzeRSI r c) = (if vote_rsi r = None then 0 else 15)"
  "c_direction (snd (analyzeRSI r c))
     = (if c_direction c = HOLD then (case vote_rsi r of Some d \<Rightarrow> d | None \<Rightarrow> HOLD) else c_direction c)"
  "c_confidence (snd (analyzeRSI r c)) = c_confidence c"
  by (simp_all add: analyzeRSI_def push_tag_def vote_rsi_def W_RSI_def)

lemma macd_facts:
  "fst (analyzeMacd m c) = gated_score W_MACD (vote_macd m) (c_direction c)"
  "c_direction (snd (analyzeMacd m c)) = c_direction c"
  "c_confidence (snd (analyzeMacd m c)) = c_confidence c"
  by (auto simp add: analyzeMacd_def push_tag_def vote_macd_def gated_score_def)

lemma ma_facts:
  "fst (analyzeMovingAverages ind cp c) = gated_score W_MOVING_AVERAGES (vote_ma ind cp) (c_direction c)"
  "c_direction (snd (analyzeMovingAverages ind cp c)) = c_direction c"
  "c_confidence (snd (analyzeMovingAverages ind cp c)) = c_confidence c"
  by (auto simp add: analyzeMovingAverages_def push_tag_def vote_ma_def gated_score_def)

lemma bb_facts:
  "fst (analyzeBollingerBands bb cp c) = gated_score W_BOLLINGER_BANDS (vote_bb bb cp) (c_direction c)"
  "c_direction (snd (analyzeBollingerBands bb cp c)) = c_direction c"
  "c_confidence (snd (analyzeBollingerBands bb cp c)) = c_confidence c"
  by (auto simp add: analyzeBollingerBands_def push_tag_def vote_bb_def gated_score_def)

lemma stoch_facts:
  "fst (analyzeStochastic st c) = gated_score W_STOCHASTIC (vote_stoch st) (c_direction c)"
  "c_direction (snd (analyzeStochastic st c)) = c_direction c"
  "c_confidence (snd (analyzeStochastic st c)) = c_confidence c"
  by (auto simp add: analyzeStochastic_def push_tag_def vote_stoch_def gated_score_def)

lemma volume_facts:
  "fst (analyzeVolume vr c) = (if vr > 1.5 then 5 else 0)"
  "c_direction (snd (analyzeVolume vr c)) = c_direction c"
  "c_confidence (snd (analyzeVolume vr c)) = c_confidence c"
  by (auto simp add: analyzeVolume_def push_tag_def VOLUME_SURGE_def W_VOLUME_def)

lemma sr_facts:
  "fst (analyzeSupportResistance sr cp c) = gated_score W_SUPPORT_RESISTANCE (vote_sr sr cp) (c_direction c)"
  "c_direction (snd (analyzeSupportResistance sr cp c)) = c_direction c"
  "c_confidence (snd (analyzeSupportResistance sr cp c)) = c_confidence c"
  by (auto simp add: analyzeSupportResistance_def push_tag_def vote_sr_def gated_score_def)

lemmas analysis_facts = ml_facts rsi_facts macd_facts ma_facts bb_facts stoch_facts volume_facts sr_facts

lemma vote_ml_not_hold [simp]: "vote_ml pr \<noteq> Some HOLD"
  by (simp add: vote_ml_def)

lemma run_analyses_direction:
  "c_direction (snd (run_analyses ind pr cp)) = established_direction pr (rsi ind)"
  by (simp add: run_analyses_def split_beta analysis_facts established_direction_def
      initial_components_def split: option.splits)

lemma run_analyses_confidence:
  "c_confidence (snd (run_analyses ind pr cp)) = (if pr_confidence pr > 60 then pr_confidence pr else 0)"
  by (simp add: run_analyses_def split_beta analysis_facts initial_components_def)

lemma run_analyses_scores:
  "sc_ml (fst (run_analyses ind pr cp)) = (if pr_confidence pr > 60 then pr_confidence pr * 0.35 else 0)"
  "sc_rsi (fst (run_analyses ind pr cp)) = (if vote_rsi (rsi ind) = None then 0 else 15)"
  "sc_macd (fst (run_analyses ind pr cp))
     = gated_score W_MACD (vote_macd (macd ind)) (established_direction pr (rsi ind))"
  "sc_ma (fst (run_analyses ind pr cp))
     = gated_score W_MOVING_AVERAGES (vote_ma ind cp) (established_direction pr (rsi ind))"
  "sc_bb (fst (run_analyses ind pr cp))
     = gated_score W_BOLLINGER_BANDS (vote_bb (bollingerBands ind) cp) (established_direction pr (rsi ind))"
  "sc_stoch (fst (run_analyses ind pr cp))
     = gated_score W_STOCHASTIC (vote_stoch (stochastic ind)) (established_direction pr (rsi ind))"
  "sc_volume (fst (run_analyses ind pr cp)) = (if volumeRatio ind > 1.5 then 5 else 0)"
  "sc_sr (fst (run_analyses ind pr cp))
     = gated_score W_SUPPORT_RESISTANCE (vote_sr (supportResistance ind) cp) (established_direction pr (rsi ind))"
  by (simp_all add: run_analyses_def split_beta analysis_facts established_direction_def
      initial_components_def split: option.splits)



text \<open>
  C8 (as amended).  The direction is fixed by the ML prediction when it votes (confidence
  above 60, BULLISH or BEARISH) and otherwise by the RSI when it votes; the later
  factors never set it.  MACD, moving averages, Bollinger bands, stochastic and
  support/resistance contribute their weight exactly when their vote is that direction,
  and nothing otherwise, also when no direction was established.  The ML prediction
  contributes 0.35 times its confidence whenever that exceeds 60, a volume surge
  contributes 5 whatever the direction, and the RSI contributes 15 when its vote is the
  direction and 0 when it abstains.
\<close>

theorem scorer_contributions:
  assumes "run_analyses ind pr currentPrice = (sc, c)"
  shows "c_direction c = established_direction pr (rsi ind)
    \<and> sc_ml sc = (if pr_confidence pr > 60 then pr_confidence pr * 0.35 else 0)
    \<and> (vote_rsi (rsi ind) = None \<longrightarrow> sc_rsi sc = 0)
    \<and> (vote_rsi (rsi ind) = Some (c_direction c) \<longrightarrow> sc_rsi sc = 15)
    \<and> sc_macd sc = gated_score W_MACD (vote_macd (macd ind)) (c_direction c)
    \<and> sc_ma sc = gated_score W_MOVING_AVERAGES (vote_ma ind currentPrice) (c_direction c)
    \<and> sc_bb sc = gated_score W_BOLLINGER_BANDS (vote_bb (bollingerBands ind) currentPrice) (c_direction c)
    \<and> sc_stoch sc = gated_score W_STOCHASTIC (vote_stoch (stochastic ind)) (c_direction c)
    \<and> sc_sr sc = gated_score W_SUPPORT_RESISTANCE (vote_sr (supportResistance ind) currentPrice) (c_direction c)
    \<and> sc_volume sc = (if volumeRatio ind > 1.5 then 5 else 0)"
proof -
  from assms have sc: "sc = fst (run_analyses ind pr currentPrice)"
    and c: "c = snd (run_analyses ind pr currentPrice)" by simp_all
  show ?thesis
    unfolding sc c by (simp add: run_analyses_direction run_analyses_scores)
qed

theorem scorer_contributions_witness:
  "\<exists>sc c. run_analyses ex_indicators (ex_prediction 100) 50000 = (sc, c)
      \<and> c_direction c = BUY \<and> sc_ml sc = 35 \<and> sc_rsi sc = 15 \<and> sc_macd sc = 12 \<and> sc_ma sc = 10
      \<and> sc_bb sc = 0 \<and> sc_stoch sc = 0 \<and> sc_sr sc = 0 \<and> sc_volume sc = 0"
proof -
  obtain sc c where run: "run_analyses ex_indicators (ex_prediction 100) 50000 = (sc, c)"
    by (cases "run_analyses ex_indicators (ex_prediction 100) 50000") blast
  have dir: "established_direction (ex_prediction 100) (rsi ex_indicators) = BUY"
    by (simp add: established_direction_def vote_ml_def ex_scorer_defs)
  from scorer_contributions [OF run] run dir show ?thesis
    by (simp add: gated_score_def vote_rsi_def vote_macd_def vote_ma_def vote_bb_def vote_stoch_def
        vote_sr_def ex_scorer_defs scorer_defs)
qed

text \<open>
  The claim as first stated fails: with the ML prediction and the RSI abstaining, MACD
  is the first factor to vote, yet the direction stays \<open>HOLD\<close> and MACD contributes
  nothing, while the volume surge contributes 5 with no direction established.
\<close>

theorem first_voter_counterexample:
  "vote_ml (ex_prediction 50) = None
   \<and> vote_rsi (rsi (ex_indicators\<lparr> rsi := 50, volumeRatio := 2 \<rparr>)) = None
   \<and> vote_macd (macd (ex_indicators\<lparr> rsi := 50, volumeRatio := 2 \<rparr>)) = Some BUY
   \<and> c_direction (snd (run_analyses (ex_indicators\<lparr> rsi := 50, volumeRatio := 2 \<rparr>) (ex_prediction 50) 50000)) = HOLD
   \<and> sc_macd (fst (run_analyses (ex_indicators\<lparr> rsi := 50, volumeRatio := 2 \<rparr>) (ex_prediction 50) 50000)) = 0
   \<and> sc_volume (fst (run_analyses (ex_indicators\<lparr> rsi := 50, volumeRatio := 2 \<rparr>) (ex_prediction 50) 50000)) = 5"
  by (simp add: scorer_defs ex_scorer_defs vote_ml_def vote_rsi_def vote_macd_def)


lemma strength_bounds:
  "50 \<le> calculateWeightedStrength (fst (run_analyses ind pr cp))"
  "calculateWeightedStrength (fst (run_analyses ind pr cp)) \<le> 95"
  by (simp_all add: calculateWeightedStrength_def run_analyses_scores gated_score_def
      W_MACD_def W_MOVING_AVERAGES_def W_BOLLINGER_BANDS_def W_STOCHASTIC_def W_SUPPORT_RESISTANCE_def)

lemma sentiment_bounds:
  "0 \<le> applySentimentConfirmation sd d" "applySentimentConfirmation sd d \<le> 5"
  by (simp_all add: applySentimentConfirmation_def)

text \<open>
  C7 (as amended).  The strength of a generated signal lies in [50, 95], so in [0, 95].
  Its confidence is not clamped: it is 0 when the ML confidence is at most 60 and the
  ML confidence itself otherwise, so for an ML confidence in [0, 100] it lies in
  [0, 100].
\<close>

theorem signal_ranges:
  assumes "generateTimeframeSignal tf (Some ind) (Some pr) sd currentPrice = Some s"
  shows "50 \<le> strength s \<and> strength s \<le> 95
    \<and> confidence s = (if pr_confidence pr > 60 then pr_confidence pr else 0)
    \<and> (0 \<le> pr_confidence pr \<and> pr_confidence pr \<le> 100
         \<longrightarrow> 0 \<le> confidence s \<and> confidence s \<le> 100)"
proof -
  from assms have s: "s = \<lparr> timeframe = tf,
      signal = c_direction (snd (run_analyses ind pr currentPrice)),
      strength = min 95 (calculateWeightedStrength (fst (run_analyses ind pr currentPrice))
                 + applySentimentConfirmation sd (c_direction (snd (run_analyses ind pr currentPrice)))),
      confidence = c_confidence (snd (run_analyses ind pr currentPrice)),
      sig_indicators = c_indicators (snd (run_analyses ind pr currentPrice)),
      reasons = c_reasons (snd (run_analyses ind pr currentPrice)),
      sig_scores = fst (run_analyses ind pr currentPrice) \<rparr>"
    by (simp add: generateTimeframeSignal_def split_beta Let_def)
  have "50 \<le> strength s"
    using strength_bounds(1) [of ind pr currentPrice]
      sentiment_bounds(1) [of sd "c_direction (snd (run_analyses ind pr currentPrice))"]
    by (simp add: s)
  moreover have "strength s \<le> 95" by (simp add: s)
  moreover have "confidence s = (if pr_confidence pr > 60 then pr_confidence pr else 0)"
    by (simp add: s run_analyses_confidence)
  ultimately show ?thesis by simp
qed

theorem signal_ranges_witness:
  "\<exists>s. generateTimeframeSignal ''1h'' (Some ex_indicators) (Some (ex_prediction 80)) ex_sentiment 50000 = Some s
      \<and> 50 \<le> strength s \<and> strength s \<le> 95 \<and> confidence s = 80"
proof -
  obtain s where
    gen: "generateTimeframeSignal ''1h'' (Some ex_indicators) (Some (ex_prediction 80)) ex_sentiment 50000 = Some s"
    by (simp add: generateTimeframeSignal_def split_beta Let_def)
  from signal_ranges [OF gen] gen show ?thesis
    by (auto simp add: ex_prediction_def)
qed

text \<open>
  The claim as first stated fails: an ML confidence of 100 gives an emitted signal of
  confidence 100, above 95.
\<close>

theorem confidence_unclamped_counterexample:
  "generateTradingSignals ex_bot_state [(''1h'', ex_indicators)]
     = Inr [\<lparr> timeframe = ''1h'', signal = BUY, strength = 95, confidence = 100,
              sig_indicators = [''ML_BULLISH'', ''RSI_OVERSOLD'', ''MACD_BULLISH'', ''MA_BULLISH''],
              reasons = [AiPredictsIncrease (Some 2.5), RsiOversold 25, MacdBullishCrossover,
                         PriceAboveMovingAverages],
              sig_scores = \<lparr> sc_ml = 35, sc_rsi = 15, sc_macd = 12, sc_ma = 10, sc_bb = 0,
                              sc_stoch = 0, sc_volume = 0, sc_sr = 0 \<rparr> \<rparr>]"
  by (simp add: generateTradingSignals_def validatePrerequisites_def falsy_num_def TIMEFRAMES_def
      generateTimeframeSignal_def calculateWeightedStrength_def applySentimentConfirmation_def
      filterAndRankSignals_def MIN_SIGNAL_STRENGTH_def rank_score_def
      scorer_defs ex_scorer_defs Let_def)

lemma generated_confidence:
  assumes "generateTimeframeSignal tf i p sd cp = Some s"
  shows "confidence s = 0 \<or> confidence s > 60"
proof -
  from assms obtain ind pr where "i = Some ind" "p = Some pr"
    by (auto simp add: generateTimeframeSignal_def split: option.splits)
  with assms have "confidence s = c_confidence (snd (run_analyses ind pr cp))"
    by (auto simp add: generateTimeframeSignal_def split_beta Let_def)
  then show ?thesis by (simp add: run_analyses_confidence)
qed

text \<open>
  C4.  Every signal that \<open>generateTradingSignals\<close> emits has strength at least 65,
  confidence at least 60 and at least two reasons; put the other way round, a signal
  with strength below 65, confidence below 60 or fewer than two reasons is not in the
  emitted list.  (The filter itself asks for confidence 50, but a generated signal has
  confidence 0 or the ML confidence, which is above 60.)
\<close>

theorem emitted_signals_meet_minimums:
  assumes "generateTradingSignals bs technicalData = Inr sigs"
  shows "(\<forall>s \<in> set sigs. strength s \<ge> 65 \<and> confidence s \<ge> 60 \<and> length (reasons s) \<ge> 2)
       \<and> (\<forall>g. strength g < 65 \<or> confidence g < 60 \<or> length (reasons g) < 2 \<longrightarrow> g \<notin> set sigs)"
proof -
  have each: "strength s \<ge> 65 \<and> confidence s \<ge> 60 \<and> length (reasons s) \<ge> 2"
    if "s \<in> set sigs" for s
  proof -
    from assms that obtain tf i p sd cp where
      gen: "generateTimeframeSignal tf i p sd cp = Some s"
      and flt: "strength s \<ge> MIN_SIGNAL_STRENGTH" "confidence s \<ge> 50" "length (reasons s) \<ge> 2"
      by (auto simp add: generateTradingSignals_def filterAndRankSignals_def Let_def
          split: if_splits option.splits)
    from generated_confidence [OF gen] flt(2) have "confidence s \<ge> 60" by auto
    with flt show ?thesis by (simp add: MIN_SIGNAL_STRENGTH_def)
  qed
  then show ?thesis by (metis not_less)
qed

theorem emitted_signals_meet_minimums_witness:
  "generateTradingSignals ex_bot_state ex_technical = Inr [ex_signal]
   \<and> strength ex_signal \<ge> 65 \<and> confidence ex_signal \<ge> 60 \<and> length (reasons ex_signal) \<ge> 2"
proof -
  have run: "generateTradingSignals ex_bot_state ex_technical = Inr [ex_signal]"
    by (simp add: generate_defs scorer_defs ex_scorer_defs ex_technical_def ex_signal_def Let_def)
  from emitted_signals_meet_minimums [OF run] run show ?thesis by simp
qed


section \<open>Consensus: properties\<close>

text \<open>
  C3.  A BUY (and likewise a SELL) consensus is handed on for execution exactly when at
  least two signals have that direction with strength above 75 and their average
  strength is above 75.  For three signals BUY 80, BUY 78 and SELL 90 the BUY side is
  eligible and the SELL side is not.
\<close>

theorem consensus_eligibility:
  "(buy_eligible sigs \<longleftrightarrow> spec_eligible BUY sigs)
   \<and> (sell_eligible sigs \<longleftrightarrow> spec_eligible SELL sigs)
   \<and> (signal a = BUY \<and> strength a = 80 \<and> signal b = BUY \<and> strength b = 78
        \<and> signal c = SELL \<and> strength c = 90
      \<longrightarrow> buy_eligible [a, b, c] \<and> \<not> sell_eligible [a, b, c])"
  by (simp add: buy_eligible_def sell_eligible_def spec_eligible_def analyzeSignalConsensus_def
      consensus_of_def CONSENSUS_THRESHOLD_def STRONG_SIGNAL_THRESHOLD_def Let_def)

theorem consensus_eligibility_witness:
  "buy_eligible [ex_signal\<lparr> strength := 80 \<rparr>, ex_signal\<lparr> timeframe := ''4h'', strength := 78 \<rparr>,
                 ex_signal\<lparr> timeframe := ''1d'', signal := SELL, strength := 90 \<rparr>]
   \<and> \<not> sell_eligible [ex_signal\<lparr> strength := 80 \<rparr>, ex_signal\<lparr> timeframe := ''4h'', strength := 78 \<rparr>,
                 ex_signal\<lparr> timeframe := ''1d'', signal := SELL, strength := 90 \<rparr>]"
  using consensus_eligibility [of "[]" "ex_signal\<lparr> strength := 80 \<rparr>"
      "ex_signal\<lparr> timeframe := ''4h'', strength := 78 \<rparr>"
      "ex_signal\<lparr> timeframe := ''1d'', signal := SELL, strength := 90 \<rparr>"]
  by (simp add: ex_signal_def)

section \<open>Trailing stop: properties\<close>

lemma metrics_fields [simp]:
  "pos_type (updatePositionMetrics t pos pr) = pos_type pos"
  "pos_stopLoss (updatePositionMetrics t pos pr) = pos_stopLoss pos"
  "pos_takeProfit (updatePositionMetrics t pos pr) = pos_takeProfit pos"
  "pos_trailingStop (updatePositionMetrics t pos pr) = pos_trailingStop pos"
  "pos_trailingStopDistance (updatePositionMetrics t pos pr) = pos_trailingStopDistance pos"
  by (simp_all add: updatePositionMetrics_def Let_def)

lemma trailing_update_type [simp]:
  "pos_type (updateTrailingStop pos pr) = pos_type pos"
  by (simp add: updateTrailingStop_def split: option.splits)


lemma monitor_step_type [simp]:
  "pos_type (fst (monitorSinglePosition pos tk)) = pos_type pos"
  by (simp add: monitorSinglePosition_def Let_def split: risk_check.splits)




lemma monitor_ticks_type [simp]:
  "pos_type (monitor_ticks pos tks) = pos_type pos"
  by (induction tks arbitrary: pos) simp_all













section \<open>Indicator library: properties\<close>

text \<open>
  C6 (as amended).  Each momentum indicator, called on a series shorter than its guard
  (period + 1 closes for the RSI, the slow period for MACD, the period for the
  stochastic), returns its neutral value: RSI 50, MACD zeros, stochastic 50/50.
  \<open>calculateIndicators\<close> itself does not degrade: on fewer than 20 candles it throws
  a \<open>ValidationError\<close>.
\<close>

theorem short_window_neutral:
  "(length closes < period + 1 \<longrightarrow> calculateRSI closes period = rsi_neutral)
   \<and> (length closes < slowPeriod
        \<longrightarrow> calculateMACD closes fastPeriod slowPeriod signalPeriod = macd_neutral)
   \<and> (length closes < period \<longrightarrow> calculateStochastic highs lows closes period = stoch_neutral)
   \<and> rsi_current rsi_neutral = Some (Num 50)
   \<and> macd_macd macd_neutral = Num 0 \<and> macd_signal macd_neutral = Num 0
   \<and> macd_histogram macd_neutral = Num 0
   \<and> stoch_k stoch_neutral = Num 50 \<and> stoch_d stoch_neutral = Num 50
   \<and> (length data < 20 \<longrightarrow> calculateIndicators data options = Inl ValidationError)"
  by (simp add: calculateRSI_def calculateMACD_def calculateStochastic_def calculateIndicators_def
      rsi_neutral_def macd_neutral_def stoch_neutral_def)

theorem short_window_neutral_witness:
  "calculateRSI (map cd_close (replicate 10 ex_candle)) RSI_PERIOD = rsi_neutral
   \<and> calculateMACD (map cd_close (replicate 10 ex_candle)) MACD_FAST MACD_SLOW MACD_SIGNAL = macd_neutral
   \<and> calculateStochastic (map cd_high (replicate 10 ex_candle)) (map cd_low (replicate 10 ex_candle))
        (map cd_close (replicate 10 ex_candle)) STOCH_PERIOD = stoch_neutral
   \<and> calculateIndicators (replicate 10 ex_candle) no_options = Inl ValidationError"
proof -
  have rsi: "length (map cd_close (replicate 10 ex_candle)) < RSI_PERIOD + 1"
    and macd: "length (map cd_close (replicate 10 ex_candle)) < MACD_SLOW"
    and stoch: "length (map cd_close (replicate 10 ex_candle)) < STOCH_PERIOD"
    and short: "length (replicate 10 ex_candle) < 20"
    by (simp_all add: RSI_PERIOD_def MACD_SLOW_def STOCH_PERIOD_def)
  from short_window_neutral [of "map cd_close (replicate 10 ex_candle)" RSI_PERIOD] rsi
  have 1: "calculateRSI (map cd_close (replicate 10 ex_candle)) RSI_PERIOD = rsi_neutral" by blast
  from short_window_neutral [of "map cd_close (replicate 10 ex_candle)" _ MACD_SLOW MACD_FAST MACD_SIGNAL] macd
  have 2: "calculateMACD (map cd_close (replicate 10 ex_candle)) MACD_FAST MACD_SLOW MACD_SIGNAL = macd_neutral"
    by blast
  from short_window_neutral [of "map cd_close (replicate 10 ex_candle)" STOCH_PERIOD _ _ _
      "map cd_high (replicate 10 ex_candle)" "map cd_low (replicate 10 ex_candle)"] stoch
  have 3: "calculateStochastic (map cd_high (replicate 10 ex_candle)) (map cd_low (replicate 10 ex_candle))
        (map cd_close (replicate 10 ex_candle)) STOCH_PERIOD = stoch_neutral" by blast
  from short_window_neutral [of _ _ _ _ _ _ _ "replicate 10 ex_candle" no_options] short
  have 4: "calculateIndicators (replicate 10 ex_candle) no_options = Inl ValidationError" by blast
  from 1 2 3 4 show ?thesis by blast
qed

text \<open>
  The claim as first stated fails: a window of 10 candles is shorter than every
  indicator's period, and \<open>calculateIndicators\<close> throws on it.
\<close>

theorem calculateIndicators_throws_counterexample:
  "calculateIndicators (replicate 10 ex_candle) no_options = Inl ValidationError"
  by (simp add: calculateIndicators_def)

end
